theory Spec2Isabelle
  imports Main "HOL-Library.Word"
begin

unbundle bit_operations_syntax

section \<open>The declarations of arlwrap.h\<close>

text \<open>
  The header declares seven structure types and twenty-six prototypes and defines no
  function body. The declarations are embedded as data: a C type is a term of
  \<open>ctype\<close>, a structure is the list of its members in declaration order, a prototype
  is its name, return type and parameter list in declaration order. A parameter the
  header leaves unnamed has the empty name.
\<close>

datatype ctype =
    CVoid
  | CBool
  | CChar
  | CInt
  | CLongLong
  | CSizeT
  | CFloat
  | CDouble
  | CFloatComplex
  | CNamed string
  | CConst ctype
  | CPtr ctype
  | CArray ctype nat

type_synonym cfield = "string \<times> ctype"

record cproto =
  pname :: string
  pret :: ctype
  pparams :: "cfield list"

subsection \<open>Structure types\<close>

definition ARLVis_decl :: "cfield list" where
  "ARLVis_decl =
    [(''nvis'', CSizeT),
     (''npol'', CInt),
     (''data'', CPtr CVoid),
     (''phasecentre'', CPtr CChar)]"

definition ARLVisEntryP4_decl :: "cfield list" where
  "ARLVisEntryP4_decl =
    [(''uvw'', CArray CDouble 3),
     (''time'', CDouble),
     (''freq'', CDouble),
     (''bw'', CDouble),
     (''intgt'', CDouble),
     (''a1'', CInt),
     (''a2'', CInt),
     (''vis'', CArray CFloatComplex 4),
     (''wght'', CArray CFloat 4),
     (''imgwght'', CArray CFloat 4)]"

definition ARLGt_decl :: "cfield list" where
  "ARLGt_decl =
    [(''nrows'', CSizeT),
     (''data'', CPtr CVoid)]"

definition Image_decl :: "cfield list" where
  "Image_decl =
    [(''size'', CSizeT),
     (''data_shape'', CArray CInt 4),
     (''data'', CPtr CVoid),
     (''wcs'', CPtr CChar),
     (''polarisation_frame'', CPtr CChar)]"

definition ARLConf_decl :: "cfield list" where
  "ARLConf_decl =
    [(''confname'', CPtr CChar),
     (''pc_ra'', CDouble),
     (''pc_dec'', CDouble),
     (''times'', CPtr CDouble),
     (''ntimes'', CInt),
     (''freqs'', CPtr CDouble),
     (''nfreqs'', CInt),
     (''channel_bandwidth'', CPtr CDouble),
     (''nchanwidth'', CInt),
     (''nbases'', CInt),
     (''nant'', CInt),
     (''npol'', CInt),
     (''nrec'', CInt),
     (''rmax'', CDouble),
     (''polframe'', CPtr CChar)]"

definition ant_t_decl :: "cfield list" where
  "ant_t_decl =
    [(''nant'', CInt),
     (''nbases'', CInt)]"

definition ARLadvice_decl :: "cfield list" where
  "ARLadvice_decl =
    [(''vis_slices'', CInt),
     (''npixel'', CInt),
     (''cellsize'', CDouble),
     (''guard_band_image'', CDouble),
     (''delA'', CDouble),
     (''wprojection_planes'', CInt)]"

subsection \<open>Prototypes\<close>

definition arl_copy_visibility_decl :: cproto where
  "arl_copy_visibility_decl =
    \<lparr>pname = ''arl_copy_visibility'', pret = CVoid,
     pparams = [(''visin'', CPtr (CConst (CNamed ''ARLVis''))),
                (''visout'', CPtr (CNamed ''ARLVis'')),
                (''zero'', CBool)]\<rparr>"

definition helper_get_image_shape_decl :: cproto where
  "helper_get_image_shape_decl =
    \<lparr>pname = ''helper_get_image_shape'', pret = CVoid,
     pparams = [(''frequency'', CPtr (CConst CDouble)),
                (''cellsize'', CDouble),
                (''shape'', CPtr CInt)]\<rparr>"

definition helper_get_image_shape_multifreq_decl :: cproto where
  "helper_get_image_shape_multifreq_decl =
    \<lparr>pname = ''helper_get_image_shape_multifreq'', pret = CVoid,
     pparams = [(''lowconf'', CPtr (CNamed ''ARLConf'')),
                (''cellsize'', CDouble),
                (''npixel'', CInt),
                (''shape'', CPtr CInt)]\<rparr>"

definition helper_get_nbases_decl :: cproto where
  "helper_get_nbases_decl =
    \<lparr>pname = ''helper_get_nbases'', pret = CVoid,
     pparams = [([], CPtr CChar),
                ([], CPtr (CNamed ''ant_t''))]\<rparr>"

definition helper_set_image_params_decl :: cproto where
  "helper_set_image_params_decl =
    \<lparr>pname = ''helper_set_image_params'', pret = CVoid,
     pparams = [(''vis'', CPtr (CConst (CNamed ''ARLVis''))),
                (''image'', CPtr (CNamed ''Image''))]\<rparr>"

definition arl_create_visibility_decl :: cproto where
  "arl_create_visibility_decl =
    \<lparr>pname = ''arl_create_visibility'', pret = CVoid,
     pparams = [(''lowconf'', CPtr (CNamed ''ARLConf'')),
                (''res_vis'', CPtr (CNamed ''ARLVis''))]\<rparr>"

definition arl_create_blockvisibility_decl :: cproto where
  "arl_create_blockvisibility_decl =
    \<lparr>pname = ''arl_create_blockvisibility'', pret = CVoid,
     pparams = [(''lowconf'', CPtr (CNamed ''ARLConf'')),
                (''res_vis'', CPtr (CNamed ''ARLVis''))]\<rparr>"

definition arl_advise_wide_field_decl :: cproto where
  "arl_advise_wide_field_decl =
    \<lparr>pname = ''arl_advise_wide_field'', pret = CVoid,
     pparams = [(''lowconf'', CPtr (CNamed ''ARLConf'')),
                (''res_vis'', CPtr (CNamed ''ARLVis'')),
                (''adv'', CPtr (CNamed ''ARLadvice''))]\<rparr>"

definition arl_create_test_image_decl :: cproto where
  "arl_create_test_image_decl =
    \<lparr>pname = ''arl_create_test_image'', pret = CVoid,
     pparams = [(''frequency'', CPtr (CConst CDouble)),
                (''cellsize'', CDouble),
                (''phasecentre'', CPtr CChar),
                (''res_img'', CPtr (CNamed ''Image''))]\<rparr>"

definition arl_create_low_test_image_from_gleam_decl :: cproto where
  "arl_create_low_test_image_from_gleam_decl =
    \<lparr>pname = ''arl_create_low_test_image_from_gleam'', pret = CVoid,
     pparams = [(''lowconf'', CPtr (CNamed ''ARLConf'')),
                (''cellsize'', CDouble),
                (''npixel'', CInt),
                (''phasecentre'', CPtr CChar),
                (''res_img'', CPtr (CNamed ''Image''))]\<rparr>"

definition arl_predict_2d_decl :: cproto where
  "arl_predict_2d_decl =
    \<lparr>pname = ''arl_predict_2d'', pret = CVoid,
     pparams = [(''visin'', CPtr (CConst (CNamed ''ARLVis''))),
                (''img'', CPtr (CConst (CNamed ''Image''))),
                (''visout'', CPtr (CNamed ''ARLVis''))]\<rparr>"

definition arl_invert_2d_decl :: cproto where
  "arl_invert_2d_decl =
    \<lparr>pname = ''arl_invert_2d'', pret = CVoid,
     pparams = [(''visin'', CPtr (CConst (CNamed ''ARLVis''))),
                (''img_in'', CPtr (CConst (CNamed ''Image''))),
                (''dopsf'', CBool),
                (''out'', CPtr (CNamed ''Image'')),
                (''sumwt'', CPtr CDouble)]\<rparr>"

definition arl_create_image_from_visibility_decl :: cproto where
  "arl_create_image_from_visibility_decl =
    \<lparr>pname = ''arl_create_image_from_visibility'', pret = CVoid,
     pparams = [(''vis'', CPtr (CConst (CNamed ''ARLVis''))),
                (''model'', CPtr (CNamed ''Image''))]\<rparr>"

definition arl_create_image_from_blockvisibility_decl :: cproto where
  "arl_create_image_from_blockvisibility_decl =
    \<lparr>pname = ''arl_create_image_from_blockvisibility'', pret = CVoid,
     pparams = [(''lowconf'', CPtr (CNamed ''ARLConf'')),
                (''blockvis'', CPtr (CConst (CNamed ''ARLVis''))),
                (''cellsize'', CDouble),
                (''npixel'', CInt),
                (''phasecentre'', CPtr CChar),
                (''model'', CPtr (CNamed ''Image''))]\<rparr>"

definition arl_deconvolve_cube_decl :: cproto where
  "arl_deconvolve_cube_decl =
    \<lparr>pname = ''arl_deconvolve_cube'', pret = CVoid,
     pparams = [(''dirty'', CPtr (CNamed ''Image'')),
                (''psf'', CPtr (CNamed ''Image'')),
                (''restored'', CPtr (CNamed ''Image'')),
                (''residual'', CPtr (CNamed ''Image''))]\<rparr>"

definition arl_restore_cube_decl :: cproto where
  "arl_restore_cube_decl =
    \<lparr>pname = ''arl_restore_cube'', pret = CVoid,
     pparams = [(''model'', CPtr (CNamed ''Image'')),
                (''psf'', CPtr (CNamed ''Image'')),
                (''residual'', CPtr (CNamed ''Image'')),
                (''restored'', CPtr (CNamed ''Image''))]\<rparr>"

definition arl_predict_function_decl :: cproto where
  "arl_predict_function_decl =
    \<lparr>pname = ''arl_predict_function'', pret = CVoid,
     pparams = [(''lowconf'', CPtr (CNamed ''ARLConf'')),
                (''visin'', CPtr (CConst (CNamed ''ARLVis''))),
                (''img'', CPtr (CConst (CNamed ''Image''))),
                (''visout'', CPtr (CNamed ''ARLVis'')),
                (''blockvisout'', CPtr (CNamed ''ARLVis'')),
                (''cindexout'', CPtr CLongLong)]\<rparr>"

definition arl_invert_function_decl :: cproto where
  "arl_invert_function_decl =
    \<lparr>pname = ''arl_invert_function'', pret = CVoid,
     pparams = [(''lowconf'', CPtr (CNamed ''ARLConf'')),
                (''visin'', CPtr (CConst (CNamed ''ARLVis''))),
                (''img_model'', CPtr (CNamed ''Image'')),
                (''vis_slices'', CInt),
                (''img_dirty'', CPtr (CNamed ''Image''))]\<rparr>"

definition arl_ical_decl :: cproto where
  "arl_ical_decl =
    \<lparr>pname = ''arl_ical'', pret = CVoid,
     pparams = [(''lowconf'', CPtr (CNamed ''ARLConf'')),
                (''visin'', CPtr (CConst (CNamed ''ARLVis''))),
                (''img_model'', CPtr (CNamed ''Image'')),
                (''vis_slices'', CInt),
                (''img_deconv'', CPtr (CNamed ''Image'')),
                (''img_resid'', CPtr (CNamed ''Image'')),
                (''img_rest'', CPtr (CNamed ''Image''))]\<rparr>"

definition arl_convert_visibility_to_blockvisibility_decl :: cproto where
  "arl_convert_visibility_to_blockvisibility_decl =
    \<lparr>pname = ''arl_convert_visibility_to_blockvisibility'', pret = CVoid,
     pparams = [(''lowconf'', CPtr (CNamed ''ARLConf'')),
                (''visin'', CPtr (CConst (CNamed ''ARLVis''))),
                (''blockvisin'', CPtr (CConst (CNamed ''ARLVis''))),
                (''cindexin'', CPtr CLongLong),
                (''visout'', CPtr (CNamed ''ARLVis''))]\<rparr>"

definition arl_create_gaintable_from_blockvisibility_decl :: cproto where
  "arl_create_gaintable_from_blockvisibility_decl =
    \<lparr>pname = ''arl_create_gaintable_from_blockvisibility'', pret = CVoid,
     pparams = [(''lowconf'', CPtr (CNamed ''ARLConf'')),
                (''visin'', CPtr (CConst (CNamed ''ARLVis''))),
                (''gtout'', CPtr (CNamed ''ARLGt''))]\<rparr>"

definition arl_predict_function_blockvis_decl :: cproto where
  "arl_predict_function_blockvis_decl =
    \<lparr>pname = ''arl_predict_function_blockvis'', pret = CVoid,
     pparams = [([], CPtr (CNamed ''ARLConf'')),
                ([], CPtr (CNamed ''ARLVis'')),
                ([], CPtr (CConst (CNamed ''Image'')))]\<rparr>"

text \<open>The header declares \<open>arl_invert_function\<close> a second time, without parameter names.\<close>

definition arl_invert_function_redecl :: cproto where
  "arl_invert_function_redecl =
    \<lparr>pname = ''arl_invert_function'', pret = CVoid,
     pparams = [([], CPtr (CNamed ''ARLConf'')),
                ([], CPtr (CConst (CNamed ''ARLVis''))),
                ([], CPtr (CNamed ''Image'')),
                ([], CInt),
                ([], CPtr (CNamed ''Image''))]\<rparr>"

definition arl_simulate_gaintable_decl :: cproto where
  "arl_simulate_gaintable_decl =
    \<lparr>pname = ''arl_simulate_gaintable'', pret = CVoid,
     pparams = [([], CPtr (CNamed ''ARLConf'')),
                (''gt'', CPtr (CNamed ''ARLGt''))]\<rparr>"

definition arl_apply_gaintable_decl :: cproto where
  "arl_apply_gaintable_decl =
    \<lparr>pname = ''arl_apply_gaintable'', pret = CVoid,
     pparams = [(''lowconf'', CPtr (CNamed ''ARLConf'')),
                (''visin'', CPtr (CConst (CNamed ''ARLVis''))),
                (''gtin'', CPtr (CNamed ''ARLGt'')),
                (''visout'', CPtr (CNamed ''ARLVis''))]\<rparr>"

definition arl_initialize_decl :: cproto where
  "arl_initialize_decl =
    \<lparr>pname = ''arl_initialize'', pret = CVoid, pparams = []\<rparr>"

text \<open>Every prototype of the header, in the order of declaration.\<close>

definition entry_points :: "cproto list" where
  "entry_points =
    [arl_copy_visibility_decl,
     helper_get_image_shape_decl,
     helper_get_image_shape_multifreq_decl,
     helper_get_nbases_decl,
     helper_set_image_params_decl,
     arl_create_visibility_decl,
     arl_create_blockvisibility_decl,
     arl_advise_wide_field_decl,
     arl_create_test_image_decl,
     arl_create_low_test_image_from_gleam_decl,
     arl_predict_2d_decl,
     arl_invert_2d_decl,
     arl_create_image_from_visibility_decl,
     arl_create_image_from_blockvisibility_decl,
     arl_deconvolve_cube_decl,
     arl_restore_cube_decl,
     arl_predict_function_decl,
     arl_invert_function_decl,
     arl_ical_decl,
     arl_convert_visibility_to_blockvisibility_decl,
     arl_create_gaintable_from_blockvisibility_decl,
     arl_predict_function_blockvis_decl,
     arl_invert_function_redecl,
     arl_simulate_gaintable_decl,
     arl_apply_gaintable_decl,
     arl_initialize_decl]"

subsection \<open>Sizes, alignments and structure layout\<close>

text \<open>
  Object sizes and alignments in bytes under the LP64 data model with IEEE 754 binary32 and
  binary64 floating types (the System V x86-64 and AArch64 ABIs): \<open>int\<close> is 4 bytes,
  \<open>float\<close> 4, \<open>double\<close> 8, \<open>float complex\<close> two floats, \<open>size_t\<close> and every
  pointer 8. \<open>void\<close> has no size, and no member of the header has a structure type, so a
  named type has none here either.
\<close>

fun size_of :: "ctype \<Rightarrow> nat option" where
  "size_of CVoid = None"
| "size_of CBool = Some 1"
| "size_of CChar = Some 1"
| "size_of CInt = Some 4"
| "size_of CLongLong = Some 8"
| "size_of CSizeT = Some 8"
| "size_of CFloat = Some 4"
| "size_of CDouble = Some 8"
| "size_of CFloatComplex = Some 8"
| "size_of (CNamed n) = None"
| "size_of (CConst t) = size_of t"
| "size_of (CPtr t) = Some 8"
| "size_of (CArray t n) = map_option (\<lambda>s. n * s) (size_of t)"

fun align_of :: "ctype \<Rightarrow> nat option" where
  "align_of CVoid = None"
| "align_of CBool = Some 1"
| "align_of CChar = Some 1"
| "align_of CInt = Some 4"
| "align_of CLongLong = Some 8"
| "align_of CSizeT = Some 8"
| "align_of CFloat = Some 4"
| "align_of CDouble = Some 8"
| "align_of CFloatComplex = Some 4"
| "align_of (CNamed n) = None"
| "align_of (CConst t) = align_of t"
| "align_of (CPtr t) = Some 8"
| "align_of (CArray t n) = align_of t"

definition align_up :: "nat \<Rightarrow> nat \<Rightarrow> nat" where
  "align_up a n = ((n + a - 1) div a) * a"

text \<open>
  The members of a structure are laid out in declaration order, each at the first offset
  at or after the end of the previous one that its alignment divides; the structure is
  padded at the end to a multiple of its strictest member alignment. \<open>layout_from\<close>
  returns each member's name, offset and size.
\<close>

fun layout_from :: "nat \<Rightarrow> cfield list \<Rightarrow> (string \<times> nat \<times> nat) list option" where
  "layout_from off [] = Some []"
| "layout_from off ((n, t) # fs) =
     (case (size_of t, align_of t) of
        (Some s, Some a) \<Rightarrow>
          map_option ((#) (n, align_up a off, s)) (layout_from (align_up a off + s) fs)
      | _ \<Rightarrow> None)"

fun struct_align :: "cfield list \<Rightarrow> nat option" where
  "struct_align [] = Some 1"
| "struct_align ((n, t) # fs) =
     (case (align_of t, struct_align fs) of
        (Some a, Some b) \<Rightarrow> Some (max a b)
      | _ \<Rightarrow> None)"

fun layout_end :: "(string \<times> nat \<times> nat) list \<Rightarrow> nat" where
  "layout_end [] = 0"
| "layout_end ((n, off, s) # ms) = max (off + s) (layout_end ms)"

definition struct_size :: "cfield list \<Rightarrow> nat option" where
  "struct_size fs =
     (case (layout_from 0 fs, struct_align fs) of
        (Some ms, Some a) \<Rightarrow> Some (align_up a (layout_end ms))
      | _ \<Rightarrow> None)"

text \<open>
  What a member holds: how many elements, and the kind and width in bits of each.
\<close>

datatype scalar_kind =
    SignedInt nat
  | UnsignedInt nat
  | IEEEFloat nat
  | ComplexOf nat
  | Boolean
  | Address

fun scalar_kind_of :: "ctype \<Rightarrow> scalar_kind option" where
  "scalar_kind_of CVoid = None"
| "scalar_kind_of CBool = Some Boolean"
| "scalar_kind_of CChar = Some (SignedInt 8)"
| "scalar_kind_of CInt = Some (SignedInt 32)"
| "scalar_kind_of CLongLong = Some (SignedInt 64)"
| "scalar_kind_of CSizeT = Some (UnsignedInt 64)"
| "scalar_kind_of CFloat = Some (IEEEFloat 32)"
| "scalar_kind_of CDouble = Some (IEEEFloat 64)"
| "scalar_kind_of CFloatComplex = Some (ComplexOf 32)"
| "scalar_kind_of (CNamed n) = None"
| "scalar_kind_of (CConst t) = scalar_kind_of t"
| "scalar_kind_of (CPtr t) = Some Address"
| "scalar_kind_of (CArray t n) = None"

fun member_shape :: "ctype \<Rightarrow> (nat \<times> scalar_kind) option" where
  "member_shape (CArray t n) = map_option (Pair n) (scalar_kind_of t)"
| "member_shape t = map_option (Pair 1) (scalar_kind_of t)"

text \<open>
  The 4-polarisation Visibility Entry as the specification's interface section words it:
  three doubles of baseline coordinates, a double each of time, frequency, bandwidth and
  integration time, two signed 32-bit antenna indices, four complex visibilities of 32-bit
  float components, four 32-bit float weights and four 32-bit float image-weights.
\<close>

definition spec_visibility_entry :: "(nat \<times> scalar_kind) list" where
  "spec_visibility_entry =
    [(3, IEEEFloat 64),
     (1, IEEEFloat 64),
     (1, IEEEFloat 64),
     (1, IEEEFloat 64),
     (1, IEEEFloat 64),
     (1, SignedInt 32),
     (1, SignedInt 32),
     (4, ComplexOf 32),
     (4, IEEEFloat 32),
     (4, IEEEFloat 32)]"

text \<open>The width in bytes of a member of the given shape, read off the shape alone.\<close>

fun kind_bytes :: "scalar_kind \<Rightarrow> nat" where
  "kind_bytes (SignedInt b) = b div 8"
| "kind_bytes (UnsignedInt b) = b div 8"
| "kind_bytes (IEEEFloat b) = b div 8"
| "kind_bytes (ComplexOf b) = 2 * (b div 8)"
| "kind_bytes Boolean = 1"
| "kind_bytes Address = 8"

definition shape_bytes :: "nat \<times> scalar_kind \<Rightarrow> nat" where
  "shape_bytes = (\<lambda>(n, k). n * kind_bytes k)"

subsection \<open>Parameter passing\<close>

text \<open>
  How a parameter is passed: by value, through a pointer to a \<open>const\<close>-qualified
  object, or through a pointer to an object the callee may write.
\<close>

datatype pmode =
    PassedByValue ctype
  | PointerToConst ctype
  | PointerToMutable ctype

fun param_mode :: "ctype \<Rightarrow> pmode" where
  "param_mode (CPtr (CConst t)) = PointerToConst t"
| "param_mode (CPtr t) = PointerToMutable t"
| "param_mode t = PassedByValue t"

definition param_modes :: "cproto \<Rightarrow> pmode list" where
  "param_modes p = map (param_mode \<circ> snd) (pparams p)"

definition takes :: "string \<Rightarrow> cproto \<Rightarrow> bool" where
  "takes n p =
     (PointerToConst (CNamed n) \<in> set (param_modes p)
      \<or> PointerToMutable (CNamed n) \<in> set (param_modes p))"

definition has_output :: "cproto \<Rightarrow> bool" where
  "has_output p = list_ex (\<lambda>m. case m of PointerToMutable t \<Rightarrow> True | _ \<Rightarrow> False) (param_modes p)"




section \<open>The data model\<close>

subsection \<open>Containers and records\<close>

text \<open>
  Floating-point members are carried as their bit patterns (binary64 as a 64-bit word,
  binary32 as a 32-bit word, a complex value as the pair of its real and imaginary parts):
  copying and blanking move bits and do no arithmetic. The \<open>int\<close> members are 32-bit
  words read as two's complement, \<open>size_t\<close> is a 64-bit word. The untyped buffer
  \<open>void *data\<close> is its bytes, \<open>None\<close> for a null pointer; a \<open>char *\<close> is the
  string it points to, \<open>None\<close> when null.
\<close>

type_synonym byte = "8 word"

record ARLGt =
  nrows :: "64 word"
  data :: "byte list option"

record ARLVis =
  nvis :: "64 word"
  npol :: "32 word"
  data :: "byte list option"
  phasecentre :: "string option"

record ARLVisEntryP4 =
  uvw :: "64 word list"
  time :: "64 word"
  freq :: "64 word"
  bw :: "64 word"
  intgt :: "64 word"
  a1 :: "32 word"
  a2 :: "32 word"
  vis :: "(32 word \<times> 32 word) list"
  wght :: "32 word list"
  imgwght :: "32 word list"

record ant_t =
  nant :: "32 word"
  nbases :: "32 word"

subsection \<open>Reading the buffer as records\<close>

text \<open>
  The header's comment on \<open>ARLVis\<close>: when \<open>npol\<close> is 4, \<open>data\<close> is equivalent to
  the C type \<open>ARLVisEntryP4[nvis]\<close>. Record \<open>i\<close> of a buffer of records of \<open>rs\<close>
  bytes is the bytes from \<open>i * rs\<close>; a member is the bytes at its offset in the layout;
  a scalar is read least significant byte first.
\<close>

definition slice :: "nat \<Rightarrow> nat \<Rightarrow> 'a list \<Rightarrow> 'a list" where
  "slice off n xs = take n (drop off xs)"

definition vis_records :: "nat \<Rightarrow> nat \<Rightarrow> byte list \<Rightarrow> byte list list" where
  "vis_records rs n buf = map (\<lambda>i. slice (i * rs) rs buf) [0..<n]"

fun le_word :: "byte list \<Rightarrow> 'a::len word" where
  "le_word [] = 0"
| "le_word (b # bs) = ucast b OR push_bit 8 (le_word bs)"

definition le_words :: "nat \<Rightarrow> nat \<Rightarrow> byte list \<Rightarrow> 'a::len word list" where
  "le_words w n bs = map (\<lambda>i. le_word (slice (i * w) w bs)) [0..<n]"

definition member_bytes :: "cfield list \<Rightarrow> string \<Rightarrow> byte list \<Rightarrow> byte list" where
  "member_bytes decl n bs =
     (case layout_from 0 decl of
        None \<Rightarrow> []
      | Some ms \<Rightarrow>
          (case map_of ms n of
             None \<Rightarrow> []
           | Some (off, sz) \<Rightarrow> slice off sz bs))"

definition read_P4 :: "byte list \<Rightarrow> ARLVisEntryP4" where
  "read_P4 bs =
     \<lparr>uvw = le_words 8 3 (member_bytes ARLVisEntryP4_decl ''uvw'' bs),
      time = le_word (member_bytes ARLVisEntryP4_decl ''time'' bs),
      freq = le_word (member_bytes ARLVisEntryP4_decl ''freq'' bs),
      bw = le_word (member_bytes ARLVisEntryP4_decl ''bw'' bs),
      intgt = le_word (member_bytes ARLVisEntryP4_decl ''intgt'' bs),
      a1 = le_word (member_bytes ARLVisEntryP4_decl ''a1'' bs),
      a2 = le_word (member_bytes ARLVisEntryP4_decl ''a2'' bs),
      vis = map (\<lambda>c. (le_word (slice 0 4 c), le_word (slice 4 4 c)))
              (vis_records 8 4 (member_bytes ARLVisEntryP4_decl ''vis'' bs)),
      wght = le_words 4 4 (member_bytes ARLVisEntryP4_decl ''wght'' bs),
      imgwght = le_words 4 4 (member_bytes ARLVisEntryP4_decl ''imgwght'' bs)\<rparr>"

definition records_of :: "nat \<Rightarrow> ARLVis \<Rightarrow> byte list list" where
  "records_of rs v =
     (case data v of
        None \<Rightarrow> []
      | Some buf \<Rightarrow> vis_records rs (unat (nvis v)) buf)"

definition entries_P4 :: "ARLVis \<Rightarrow> ARLVisEntryP4 list" where
  "entries_P4 v = map read_P4 (records_of 128 v)"

definition zero_entry_P4 :: ARLVisEntryP4 where
  "zero_entry_P4 =
     \<lparr>uvw = [0, 0, 0], time = 0, freq = 0, bw = 0, intgt = 0, a1 = 0, a2 = 0,
      vis = [(0, 0), (0, 0), (0, 0), (0, 0)], wght = [0, 0, 0, 0],
      imgwght = [0, 0, 0, 0]\<rparr>"

subsection \<open>Operations whose bodies are outside the header\<close>

text \<open>
  The size in bytes of one per-sample record for a polarisation count. For 4 it is the
  size of \<open>ARLVisEntryP4\<close>; the header declares no record for 1 and 2 polarisations,
  so their sizes \<open>r1\<close> and \<open>r2\<close> are parameters. Any other count selects no layout.
\<close>

definition record_size :: "nat \<Rightarrow> nat \<Rightarrow> int \<Rightarrow> nat option" where
  "record_size r1 r2 P =
     (if P = 4 then struct_size ARLVisEntryP4_decl
      else if P = 2 then Some r2
      else if P = 1 then Some r1
      else None)"

text \<open>
  Modelled from the spec: the code that constructs a Visibility Container (the bodies of
  \<open>arl_create_visibility\<close> and \<open>arl_create_blockvisibility\<close>, and how they derive
  the sample count from the configuration) is not in the header. By the specification a
  container constructed with \<open>N\<close> samples and \<open>P\<close> polarisations records both counts
  and has a buffer of exactly \<open>N\<close> contiguous records of the layout \<open>P\<close> selects;
  a polarisation count other than 1, 2 or 4 is a violated precondition. A sample count
  is valid when it and the byte size of the buffer fit \<open>size_t\<close>. The fresh buffer is
  zero-filled.
\<close>

definition create_visibility_container ::
  "nat \<Rightarrow> nat \<Rightarrow> nat \<Rightarrow> int \<Rightarrow> string option \<Rightarrow> ARLVis option" where
  "create_visibility_container r1 r2 N P pc =
     (case record_size r1 r2 P of
        None \<Rightarrow> None
      | Some rs \<Rightarrow>
          if N < 2 ^ 64 \<and> N * rs < 2 ^ 64
          then Some \<lparr>nvis = of_nat N, npol = of_int P,
                     data = Some (replicate (N * rs) 0), phasecentre = pc\<rparr>
          else None)"

text \<open>
  Modelled from the spec: the body of \<open>arl_copy_visibility\<close> is not in the header. By
  the specification the copy takes a source container and a destination container already
  sized to match, and either deep-copies every per-sample field, or, when the zero flag
  is set, duplicates shape and metadata and writes zero sample payloads. A null buffer or
  a destination not sized like the source is a violated precondition (\<open>None\<close>).
\<close>

definition arl_copy_visibility :: "ARLVis \<Rightarrow> ARLVis \<Rightarrow> bool \<Rightarrow> ARLVis option" where
  "arl_copy_visibility visin visout zero =
     (case (data visin, data visout) of
        (Some src, Some dst) \<Rightarrow>
          if nvis visout = nvis visin \<and> npol visout = npol visin \<and> length dst = length src
          then Some (visout\<lparr>data := Some (if zero then replicate (length src) 0 else src),
                            phasecentre := phasecentre visin\<rparr>)
          else None
      | _ \<Rightarrow> None)"

text \<open>
  Modelled from the spec: the body of \<open>arl_apply_gaintable\<close> is not in the header. By
  the specification the apply operation consumes a Configuration Descriptor, an input
  Visibility Container and a Gain Table Container, multiplies or divides the visibility
  samples by the corresponding solutions, and writes the results into an output Visibility
  Container of matching shape. The arithmetic on a sample is the numerical backend's: it
  is the parameter \<open>calibrate\<close>, from the configuration, the gain table, the index of
  the sample and its record to the record written. A null buffer, a polarisation count
  that selects no layout, an output container not sized like the input, and a backend
  that hands back a record of another size are violated preconditions (\<open>None\<close>).
\<close>

definition arl_apply_gaintable ::
  "('c \<Rightarrow> ARLGt \<Rightarrow> nat \<Rightarrow> byte list \<Rightarrow> byte list) \<Rightarrow> nat \<Rightarrow> nat \<Rightarrow>
     'c \<Rightarrow> ARLVis \<Rightarrow> ARLGt \<Rightarrow> ARLVis \<Rightarrow> ARLVis option" where
  "arl_apply_gaintable calibrate r1 r2 lowconf visin gtin visout =
     (case (data visin, ARLGt.data gtin, data visout, record_size r1 r2 (sint (npol visin))) of
        (Some src, Some sol, Some dst, Some rs) \<Rightarrow>
          if nvis visout = nvis visin \<and> npol visout = npol visin \<and> length dst = length src
             \<and> list_all (\<lambda>r. length r = rs)
                  (map (\<lambda>i. calibrate lowconf gtin i (slice (i * rs) rs src))
                     [0..<unat (nvis visin)])
          then Some (visout\<lparr>data :=
                 Some (concat (map (\<lambda>i. calibrate lowconf gtin i (slice (i * rs) rs src))
                                 [0..<unat (nvis visin)]))\<rparr>)
          else None
      | _ \<Rightarrow> None)"

text \<open>
  Modelled from the spec: the body of \<open>helper_get_nbases\<close> and the table of named
  array configurations it consults are not in the header. By the prototype the helper
  takes the configuration name and fills an \<open>ant_t\<close>; by the specification the
  baseline count is the number of pairwise combinations of the antennas. The antenna
  count of a named configuration is the parameter \<open>antennas_of\<close>.
\<close>

definition pairwise_combinations :: "int \<Rightarrow> int" where
  "pairwise_combinations n = n * (n - 1) div 2"

definition helper_get_nbases :: "(string \<Rightarrow> int) \<Rightarrow> string \<Rightarrow> ant_t" where
  "helper_get_nbases antennas_of name =
     \<lparr>nant = word_of_int (antennas_of name),
      nbases = word_of_int (pairwise_combinations (antennas_of name))\<rparr>"

section \<open>Auxiliary facts\<close>

lemmas entry_point_defs =
  arl_copy_visibility_decl_def helper_get_image_shape_decl_def
  helper_get_image_shape_multifreq_decl_def helper_get_nbases_decl_def
  helper_set_image_params_decl_def arl_create_visibility_decl_def
  arl_create_blockvisibility_decl_def arl_advise_wide_field_decl_def
  arl_create_test_image_decl_def arl_create_low_test_image_from_gleam_decl_def
  arl_predict_2d_decl_def arl_invert_2d_decl_def arl_create_image_from_visibility_decl_def
  arl_create_image_from_blockvisibility_decl_def arl_deconvolve_cube_decl_def
  arl_restore_cube_decl_def arl_predict_function_decl_def arl_invert_function_decl_def
  arl_ical_decl_def arl_convert_visibility_to_blockvisibility_decl_def
  arl_create_gaintable_from_blockvisibility_decl_def
  arl_predict_function_blockvis_decl_def arl_invert_function_redecl_def
  arl_simulate_gaintable_decl_def arl_apply_gaintable_decl_def arl_initialize_decl_def

lemma entry_member_offsets:
  "layout_from 0 ARLVisEntryP4_decl =
     Some [(''uvw'', 0, 24), (''time'', 24, 8), (''freq'', 32, 8), (''bw'', 40, 8),
           (''intgt'', 48, 8), (''a1'', 56, 4), (''a2'', 60, 4), (''vis'', 64, 32),
           (''wght'', 96, 16), (''imgwght'', 112, 16)]"
  by (simp add: ARLVisEntryP4_decl_def align_up_def)

lemma P4_size: "struct_size ARLVisEntryP4_decl = Some 128"
  by (simp add: struct_size_def entry_member_offsets) (simp add: ARLVisEntryP4_decl_def align_up_def)

lemma record_size_P4: "record_size r1 r2 4 = Some 128"
  by (simp add: record_size_def P4_size)

lemma record_size_cases:
  "P = 1 \<or> P = 2 \<or> P = 4 \<Longrightarrow> \<exists>rs. record_size r1 r2 P = Some rs"
  by (auto simp: record_size_def P4_size)

text \<open>
  The members of the three containers under the same data model: a word-size unsigned
  count first, then the discriminator (a signed 32-bit polarisation count, four signed
  32-bit shape components, none for the gain table), then the buffer and text pointers.
\<close>

lemma container_member_shapes:
  "map (member_shape \<circ> snd) ARLVis_decl =
     [Some (1, UnsignedInt 64), Some (1, SignedInt 32), Some (1, Address), Some (1, Address)]
   \<and> map (member_shape \<circ> snd) Image_decl =
     [Some (1, UnsignedInt 64), Some (4, SignedInt 32), Some (1, Address), Some (1, Address),
      Some (1, Address)]
   \<and> map (member_shape \<circ> snd) ARLGt_decl = [Some (1, UnsignedInt 64), Some (1, Address)]
   \<and> map (member_shape \<circ> snd) ant_t_decl = [Some (1, SignedInt 32), Some (1, SignedInt 32)]"
  by (simp add: ARLVis_decl_def Image_decl_def ARLGt_decl_def ant_t_decl_def)

subsection \<open>Parameters\<close>

text \<open>
  No prototype \<open>const\<close>-qualifies its Configuration Descriptor: the fifteen prototypes
  that take one (fourteen functions, \<open>arl_invert_function\<close> being declared twice) all
  take it through a pointer to a writable object.
\<close>

lemma configuration_parameters_writable:
  "map pname (filter (\<lambda>p. PointerToMutable (CNamed ''ARLConf'') \<in> set (param_modes p)) entry_points) =
     [''helper_get_image_shape_multifreq'', ''arl_create_visibility'',
      ''arl_create_blockvisibility'', ''arl_advise_wide_field'',
      ''arl_create_low_test_image_from_gleam'', ''arl_create_image_from_blockvisibility'',
      ''arl_predict_function'', ''arl_invert_function'', ''arl_ical'',
      ''arl_convert_visibility_to_blockvisibility'',
      ''arl_create_gaintable_from_blockvisibility'', ''arl_predict_function_blockvis'',
      ''arl_invert_function'', ''arl_simulate_gaintable'', ''arl_apply_gaintable'']
   \<and> filter (\<lambda>p. PointerToConst (CNamed ''ARLConf'') \<in> set (param_modes p)) entry_points = []"
  by (simp add: entry_points_def param_modes_def entry_point_defs)

subsection \<open>Buffers of zero bytes\<close>

lemma slice_replicate: "off + n \<le> m \<Longrightarrow> slice off n (replicate m x) = replicate n x"
  by (simp add: slice_def)

lemma vis_records_zero:
  "vis_records rs n (replicate (n * rs) 0) = replicate n (replicate rs 0)"
proof (rule nth_equalityI)
  show "length (vis_records rs n (replicate (n * rs) 0))
          = length (replicate n (replicate rs (0::byte)))"
    by (simp add: vis_records_def)
next
  fix i assume "i < length (vis_records rs n (replicate (n * rs) 0))"
  then have i: "i < n" by (simp add: vis_records_def)
  then have "Suc i \<le> n" by simp
  then have "Suc i * rs \<le> n * rs" by (rule mult_le_mono1)
  then have "slice (i * rs) rs (replicate (n * rs) (0::byte)) = replicate rs 0"
    by (simp add: slice_replicate)
  with i show "vis_records rs n (replicate (n * rs) 0) ! i = replicate n (replicate rs 0) ! i"
    by (simp add: vis_records_def)
qed

lemma le_word_zero: "le_word (replicate n 0) = 0"
  by (induction n) simp_all

lemma le_words_zero: "n * w \<le> m \<Longrightarrow> le_words w n (replicate m 0) = replicate n 0"
proof (rule nth_equalityI)
  show "length (le_words w n (replicate m 0) :: 'a word list)
          = length (replicate n (0 :: 'a::len word))"
    by (simp add: le_words_def)
next
  fix i assume le: "n * w \<le> m"
    and "i < length (le_words w n (replicate m 0) :: 'a word list)"
  then have i: "i < n" by (simp add: le_words_def)
  then have "Suc i \<le> n" by simp
  then have "Suc i * w \<le> n * w" by (rule mult_le_mono1)
  with le have "i * w + w \<le> m" by simp
  then have "slice (i * w) w (replicate m (0::byte)) = replicate w 0"
    by (rule slice_replicate)
  with i show "(le_words w n (replicate m 0) :: 'a word list) ! i = replicate n 0 ! i"
    by (simp add: le_words_def le_word_zero)
qed

subsection \<open>Buffers written record by record\<close>

lemma length_concat_records:
  "list_all (\<lambda>r. length r = rs) xs \<Longrightarrow> length (concat xs) = length xs * rs"
  by (induction xs) simp_all

lemma slice_append_skip: "length x = k \<Longrightarrow> slice (k + off) n (x @ ys) = slice off n ys"
  by (simp add: slice_def)

lemma slice_append_first: "length x = n \<Longrightarrow> slice 0 n (x @ ys) = x"
  by (simp add: slice_def)

lemma vis_records_concat:
  "list_all (\<lambda>r. length r = rs) xs \<Longrightarrow> vis_records rs (length xs) (concat xs) = xs"
proof (induction xs)
  case Nil
  then show ?case by (simp add: vis_records_def)
next
  case (Cons x xs)
  then have x: "length x = rs" and xs: "list_all (\<lambda>r. length r = rs) xs"
    by simp_all
  have shift: "map (\<lambda>i. slice (i * rs) rs (x @ concat xs)) [0..<Suc (length xs)]
      = slice 0 rs (x @ concat xs) # map (\<lambda>i. slice (rs + i * rs) rs (x @ concat xs)) [0..<length xs]"
    by (simp add: upt_conv_Cons map_Suc_upt [symmetric] del: upt_Suc)
  have "vis_records rs (length (x # xs)) (concat (x # xs))
      = x # vis_records rs (length xs) (concat xs)"
    using x shift by (simp add: vis_records_def slice_append_skip slice_append_first del: upt_Suc)
  with Cons.IH [OF xs] show ?case by simp
qed

lemma length_slice: "off + n \<le> length xs \<Longrightarrow> length (slice off n xs) = n"
  by (simp add: slice_def)

text \<open>A record of 128 zero bytes reads as the entry whose every member is zero.\<close>

lemma read_P4_zero: "read_P4 (replicate 128 0) = zero_entry_P4"
proof -
  have v: "vis_records 8 4 (replicate 32 (0::byte)) = replicate 4 (replicate 8 0)"
    using vis_records_zero [of 8 4] by simp
  have r3: "replicate 3 x = [x, x, x]" and r4: "replicate 4 x = [x, x, x, x]" for x :: 'b
    by (simp_all add: eval_nat_numeral)
  show ?thesis
    by (simp add: read_P4_def zero_entry_P4_def member_bytes_def entry_member_offsets slice_replicate
        le_word_zero le_words_zero v)
      (simp add: r3 r4 slice_replicate le_word_zero)
qed

subsection \<open>Words\<close>

lemma unat_of_nat64: "N < 2 ^ 64 \<Longrightarrow> unat (of_nat N :: 64 word) = N"
  by (simp add: unat_of_nat)

lemma sint_of_int32:
  "- (2 ^ 31) \<le> x \<Longrightarrow> x < 2 ^ 31 \<Longrightarrow> sint (word_of_int x :: 32 word) = x"
  by (simp add: sint_sbintrunc' signed_take_bit_int_eq_self)

section \<open>Properties of the declarations\<close>

text \<open>
  C1. The 4-polarisation Visibility Entry structure declares its members in the order and
  with the sizes the specification lists: three doubles \<open>uvw\<close>, one double each for
  \<open>time\<close>, \<open>freq\<close>, \<open>bw\<close> and \<open>intgt\<close>, two signed 32-bit integers \<open>a1\<close> and
  \<open>a2\<close>, four complex values of 32-bit float components \<open>vis\<close>, four 32-bit floats
  \<open>wght\<close> and four 32-bit floats \<open>imgwght\<close>. The record has a fixed size of 128 bytes,
  every member starts where the previous one ends, and no padding follows the last one, so
  the size of the record is the sum of the sizes the specification lists.
\<close>

theorem ARLVisEntryP4_layout:
  "map fst ARLVisEntryP4_decl =
     [''uvw'', ''time'', ''freq'', ''bw'', ''intgt'', ''a1'', ''a2'', ''vis'', ''wght'',
      ''imgwght'']
   \<and> map (member_shape \<circ> snd) ARLVisEntryP4_decl = map Some spec_visibility_entry
   \<and> layout_from 0 ARLVisEntryP4_decl =
       Some [(''uvw'', 0, 24), (''time'', 24, 8), (''freq'', 32, 8), (''bw'', 40, 8),
             (''intgt'', 48, 8), (''a1'', 56, 4), (''a2'', 60, 4), (''vis'', 64, 32),
             (''wght'', 96, 16), (''imgwght'', 112, 16)]
   \<and> struct_size ARLVisEntryP4_decl = Some 128
   \<and> sum_list (map shape_bytes spec_visibility_entry) = 128"
  by (simp add: ARLVisEntryP4_decl_def spec_visibility_entry_def struct_size_def
      align_up_def shape_bytes_def)

text \<open>
  C2. No entry point returns a status: each of the twenty-six prototypes of the header,
  the construction, advisory, transform, calibration and initialisation calls alike,
  has return type \<open>void\<close>. Whatever a call produces it can only hand over through a
  parameter that points to a writable object; the one prototype without such a parameter
  is \<open>arl_initialize\<close>, which has no parameter at all.
\<close>

theorem entry_points_return_void:
  "map pret entry_points = replicate 26 CVoid
   \<and> filter (\<lambda>p. \<not> has_output p) entry_points = [arl_initialize_decl]"
  by (simp add: entry_points_def entry_point_defs has_output_def param_modes_def
      eval_nat_numeral)



text \<open>
  C6, as the claim states it, fails: the simulation variant \<open>arl_simulate_gaintable\<close>
  does not take both a Configuration Descriptor and a Visibility Container. It has no
  Visibility Container parameter.
\<close>

theorem simulate_gaintable_takes_no_visibility:
  "\<not> (takes ''ARLConf'' arl_simulate_gaintable_decl
       \<and> takes ''ARLVis'' arl_simulate_gaintable_decl)"
  by (simp add: takes_def param_modes_def arl_simulate_gaintable_decl_def)

text \<open>
  C6, amended. Three entry points take a Gain Table Container. Both operations that
  create one take a Configuration Descriptor as input. The derivation from observed data,
  \<open>arl_create_gaintable_from_blockvisibility\<close>, takes a Visibility Container as well;
  the simulation, \<open>arl_simulate_gaintable\<close>, does not: its parameters are the
  Configuration Descriptor and the Gain Table Container. The apply operation,
  \<open>arl_apply_gaintable\<close>, consumes a Configuration Descriptor, an input Visibility
  Container and a Gain Table Container, and writes its results into an output Visibility
  Container of matching shape. Whenever it writes, the output has the input's sample and
  polarisation counts and a buffer of that many records of the layout the polarisation
  count selects. And it does write, each record of the output being the calibrated record
  of the input, when the buffers are not null, the input's buffer holds its records, the
  output container is sized like the input and the backend keeps the record size.
\<close>

theorem gaintable_operation_parameters:
  assumes bufs: "data visin = Some src" "ARLGt.data gtin = Some sol" "data visout = Some dst"
    and sized: "nvis visout = nvis visin" "npol visout = npol visin" "length dst = length src"
    and layout: "record_size r1 r2 (sint (npol visin)) = Some rs"
    and whole: "length src = unat (nvis visin) * rs"
    and keeps: "\<And>i r. length r = rs \<Longrightarrow> length (calibrate lowconf gtin i r) = rs"
  shows "filter (takes ''ARLGt'') entry_points =
           [arl_create_gaintable_from_blockvisibility_decl, arl_simulate_gaintable_decl,
            arl_apply_gaintable_decl]
       \<and> takes ''ARLConf'' arl_create_gaintable_from_blockvisibility_decl
       \<and> takes ''ARLVis'' arl_create_gaintable_from_blockvisibility_decl
       \<and> takes ''ARLConf'' arl_simulate_gaintable_decl
       \<and> param_modes arl_create_gaintable_from_blockvisibility_decl =
           [PointerToMutable (CNamed ''ARLConf''), PointerToConst (CNamed ''ARLVis''),
            PointerToMutable (CNamed ''ARLGt'')]
       \<and> param_modes arl_simulate_gaintable_decl =
           [PointerToMutable (CNamed ''ARLConf''), PointerToMutable (CNamed ''ARLGt'')]
       \<and> param_modes arl_apply_gaintable_decl =
           [PointerToMutable (CNamed ''ARLConf''), PointerToConst (CNamed ''ARLVis''),
            PointerToMutable (CNamed ''ARLGt''), PointerToMutable (CNamed ''ARLVis'')]
       \<and> (\<exists>out buf. arl_apply_gaintable calibrate r1 r2 lowconf visin gtin visout = Some out
             \<and> nvis out = nvis visin \<and> npol out = npol visin
             \<and> data out = Some buf \<and> length buf = length src
             \<and> records_of rs out =
                 map (\<lambda>i. calibrate lowconf gtin i (records_of rs visin ! i))
                   [0..<unat (nvis visin)])
       \<and> (\<forall>w. arl_apply_gaintable cal q1 q2 conf vin gt vout = Some w \<longrightarrow>
             nvis w = nvis vin \<and> npol w = npol vin
             \<and> (\<exists>k buf. record_size q1 q2 (sint (npol vin)) = Some k
                   \<and> data w = Some buf \<and> length buf = unat (nvis vin) * k))"
proof -
  let ?n = "unat (nvis visin)"
  let ?res = "map (\<lambda>i. calibrate lowconf gtin i (slice (i * rs) rs src)) [0..<?n]"
  let ?out = "visout\<lparr>data := Some (concat ?res)\<rparr>"
  have sl: "length (slice (i * rs) rs src) = rs" if "i < ?n" for i
  proof -
    from that have "Suc i \<le> ?n" by simp
    then have "Suc i * rs \<le> ?n * rs" by (rule mult_le_mono1)
    with whole have "i * rs + rs \<le> length src" by simp
    then show ?thesis by (rule length_slice)
  qed
  have all: "list_all (\<lambda>r. length r = rs) ?res"
    by (simp add: list_all_iff keeps sl)
  have a: "arl_apply_gaintable calibrate r1 r2 lowconf visin gtin visout = Some ?out"
    using bufs sized layout all by (simp add: arl_apply_gaintable_def)
  have len: "length (concat ?res) = length src"
    using length_concat_records [OF all] whole by simp
  have "records_of rs ?out = vis_records rs (length ?res) (concat ?res)"
    using sized by (simp add: records_of_def)
  also have "\<dots> = ?res"
    using all by (rule vis_records_concat)
  also have "\<dots> = map (\<lambda>i. calibrate lowconf gtin i (records_of rs visin ! i)) [0..<?n]"
    using bufs by (simp add: records_of_def vis_records_def)
  finally have recs: "records_of rs ?out =
      map (\<lambda>i. calibrate lowconf gtin i (records_of rs visin ! i)) [0..<?n]" .
  have applied: "\<exists>out buf. arl_apply_gaintable calibrate r1 r2 lowconf visin gtin visout = Some out
             \<and> nvis out = nvis visin \<and> npol out = npol visin
             \<and> data out = Some buf \<and> length buf = length src
             \<and> records_of rs out =
                 map (\<lambda>i. calibrate lowconf gtin i (records_of rs visin ! i)) [0..<?n]"
    using a len recs sized by (intro exI [of _ ?out] exI [of _ "concat ?res"]) simp
  have decls: "filter (takes ''ARLGt'') entry_points =
           [arl_create_gaintable_from_blockvisibility_decl, arl_simulate_gaintable_decl,
            arl_apply_gaintable_decl]
       \<and> takes ''ARLConf'' arl_create_gaintable_from_blockvisibility_decl
       \<and> takes ''ARLVis'' arl_create_gaintable_from_blockvisibility_decl
       \<and> takes ''ARLConf'' arl_simulate_gaintable_decl
       \<and> param_modes arl_create_gaintable_from_blockvisibility_decl =
           [PointerToMutable (CNamed ''ARLConf''), PointerToConst (CNamed ''ARLVis''),
            PointerToMutable (CNamed ''ARLGt'')]
       \<and> param_modes arl_simulate_gaintable_decl =
           [PointerToMutable (CNamed ''ARLConf''), PointerToMutable (CNamed ''ARLGt'')]
       \<and> param_modes arl_apply_gaintable_decl =
           [PointerToMutable (CNamed ''ARLConf''), PointerToConst (CNamed ''ARLVis''),
            PointerToMutable (CNamed ''ARLGt''), PointerToMutable (CNamed ''ARLVis'')]"
    by (simp add: entry_points_def takes_def param_modes_def entry_point_defs)
  have shape: "nvis w = nvis vin \<and> npol w = npol vin
             \<and> (\<exists>k buf. record_size q1 q2 (sint (npol vin)) = Some k
                   \<and> data w = Some buf \<and> length buf = unat (nvis vin) * k)"
    if "arl_apply_gaintable cal q1 q2 conf vin gt vout = Some w" for w
    using that
    by (auto simp: arl_apply_gaintable_def length_concat_records
        split: option.splits if_splits)
  from decls applied shape show ?thesis by blast
qed

theorem gaintable_operation_parameters_witness:
  "\<exists>out buf. arl_apply_gaintable (\<lambda>c g i r. rev r) 24 48 ''LOWBD2''
        \<lparr>nvis = 1, npol = 4, data = Some (replicate 128 7), phasecentre = None\<rparr>
        \<lparr>nrows = 1, data = Some [1]\<rparr>
        \<lparr>nvis = 1, npol = 4, data = Some (replicate 128 0), phasecentre = None\<rparr> = Some out
      \<and> nvis out = 1 \<and> npol out = 4 \<and> data out = Some buf \<and> length buf = 128"
proof -
  let ?src = "\<lparr>nvis = 1, npol = 4, data = Some (replicate 128 7), phasecentre = None\<rparr>"
  let ?dst = "\<lparr>nvis = 1, npol = 4, data = Some (replicate 128 0), phasecentre = None\<rparr>"
  let ?gt = "\<lparr>nrows = 1, ARLGt.data = Some [1]\<rparr>"
  have l: "record_size 24 48 (sint (npol ?src)) = Some 128"
    by (simp add: record_size_P4)
  from gaintable_operation_parameters
    [of ?src "replicate 128 7" ?gt "[1]" ?dst "replicate 128 0" 24 48 128
        "\<lambda>c g i r. rev r" "''LOWBD2''" "\<lambda>c g i r. rev r" 24 48 "''LOWBD2''" ?src ?gt ?dst,
      OF _ _ _ _ _ _ l]
  show ?thesis by auto
qed

section \<open>Properties of the operations modelled from the specification\<close>

text \<open>
  C5. For every sample count \<open>N\<close> that fits \<open>size_t\<close> together with the byte size of
  its buffer, and every polarisation count \<open>P\<close> among 1, 2 and 4, the container
  constructed with \<open>N\<close> samples and \<open>P\<close> polarisations records \<open>N\<close> and \<open>P\<close> and
  has a non-null buffer of exactly \<open>N\<close> contiguous records of the size \<open>P\<close> selects.
  For \<open>P = 4\<close> that size is the size of \<open>ARLVisEntryP4\<close>, 128 bytes, and the buffer
  reads as \<open>N\<close> entries of that type.
\<close>

theorem create_visibility_container_buffer:
  assumes P: "P = 1 \<or> P = 2 \<or> P = 4"
  shows "\<exists>rs. record_size r1 r2 P = Some rs
           \<and> (P = 4 \<longrightarrow> struct_size ARLVisEntryP4_decl = Some rs \<and> rs = 128)
           \<and> (N < 2 ^ 64 \<and> N * rs < 2 ^ 64 \<longrightarrow>
                (\<exists>v buf. create_visibility_container r1 r2 N P pc = Some v
                   \<and> unat (nvis v) = N \<and> sint (npol v) = P
                   \<and> data v = Some buf \<and> length buf = N * rs
                   \<and> length (records_of rs v) = N
                   \<and> records_of rs v = replicate N (replicate rs 0)
                   \<and> (P = 4 \<longrightarrow> entries_P4 v = replicate N zero_entry_P4)))"
proof -
  from P obtain rs where rs: "record_size r1 r2 P = Some rs"
    using record_size_cases by blast
  have four: "rs = 128" if "P = 4"
    using rs that by (simp add: record_size_P4)
  have built: "\<exists>v buf. create_visibility_container r1 r2 N P pc = Some v
                   \<and> unat (nvis v) = N \<and> sint (npol v) = P
                   \<and> data v = Some buf \<and> length buf = N * rs
                   \<and> length (records_of rs v) = N
                   \<and> records_of rs v = replicate N (replicate rs 0)
                   \<and> (P = 4 \<longrightarrow> entries_P4 v = replicate N zero_entry_P4)"
    if N: "N < 2 ^ 64" "N * rs < 2 ^ 64"
  proof -
    let ?v = "\<lparr>nvis = of_nat N, npol = of_int P,
               data = Some (replicate (N * rs) 0), phasecentre = pc\<rparr>"
    have c: "create_visibility_container r1 r2 N P pc = Some ?v"
      using rs N by (simp add: create_visibility_container_def)
    have n: "unat (nvis ?v) = N"
      using N(1) by (simp add: unat_of_nat64)
    have p: "sint (npol ?v) = P"
      using P by auto
    have r: "records_of rs ?v = replicate N (replicate rs 0)"
      using n by (simp add: records_of_def vis_records_zero)
    have e: "entries_P4 ?v = replicate N zero_entry_P4" if "P = 4"
      using r four [OF that] by (simp add: entries_P4_def read_P4_zero)
    show ?thesis
      using c n p r e by simp
  qed
  show ?thesis
    using rs four built P4_size by (intro exI [of _ rs]) auto
qed

theorem create_visibility_container_buffer_witness:
  "\<exists>v buf. create_visibility_container 24 48 2 4 (Some ''phase'') = Some v
      \<and> unat (nvis v) = 2 \<and> sint (npol v) = 4
      \<and> data v = Some buf \<and> length buf = 256
      \<and> entries_P4 v = [zero_entry_P4, zero_entry_P4]"
proof -
  have P: "(4::int) = 1 \<or> (4::int) = 2 \<or> (4::int) = 4" by simp
  have r: "replicate 2 x = [x, x]" for x :: ARLVisEntryP4
    by (simp add: eval_nat_numeral)
  from create_visibility_container_buffer [OF P, of 24 48 2 "Some ''phase''"]
  show ?thesis
    by (auto simp: record_size_P4 r)
qed

text \<open>
  C3. Take a source container whose buffer holds its \<open>nvis\<close> records of the size its
  polarisation count selects, and a destination with a buffer, sized to the same sample
  and polarisation counts. With the zero flag unset the copy succeeds and the destination
  has the source's counts and phase centre and, record for record, the source's bytes:
  every member of every record, the weights and image-weights among them, is the source's
  (for 4 polarisations the destination reads as the same \<open>ARLVisEntryP4\<close> entries). With
  the zero flag set the copy succeeds, counts and phase centre are the source's, and every
  record is zero bytes: for 4 polarisations every member of every entry is zero.
\<close>

theorem arl_copy_visibility_copies:
  assumes src: "data visin = Some src" and dst: "data visout = Some dst"
    and sized: "nvis visout = nvis visin" "npol visout = npol visin" "length dst = length src"
    and layout: "record_size r1 r2 (sint (npol visin)) = Some rs"
    and whole: "length src = unat (nvis visin) * rs"
  shows "(\<exists>out. arl_copy_visibility visin visout False = Some out
            \<and> nvis out = nvis visin \<and> npol out = npol visin
            \<and> phasecentre out = phasecentre visin
            \<and> data out = data visin
            \<and> records_of rs out = records_of rs visin
            \<and> entries_P4 out = entries_P4 visin)
       \<and> (\<exists>out blank. arl_copy_visibility visin visout True = Some out
            \<and> nvis out = nvis visin \<and> npol out = npol visin
            \<and> phasecentre out = phasecentre visin
            \<and> data out = Some blank \<and> length blank = length src
            \<and> records_of rs out = replicate (unat (nvis visin)) (replicate rs 0)
            \<and> (sint (npol visin) = 4 \<longrightarrow>
                 entries_P4 out = replicate (unat (nvis visin)) zero_entry_P4))"
proof -
  let ?n = "unat (nvis visin)"
  let ?copy = "visout\<lparr>data := Some src, phasecentre := phasecentre visin\<rparr>"
  let ?blank = "visout\<lparr>data := Some (replicate (?n * rs) 0),
                        phasecentre := phasecentre visin\<rparr>"
  have c: "arl_copy_visibility visin visout False = Some ?copy"
    using src dst sized by (simp add: arl_copy_visibility_def)
  have z: "arl_copy_visibility visin visout True = Some ?blank"
    using src dst sized whole by (simp add: arl_copy_visibility_def)
  have cr: "records_of k ?copy = records_of k visin" for k
    using src sized by (simp add: records_of_def)
  have zr: "records_of rs ?blank = replicate ?n (replicate rs 0)"
    using sized by (simp add: records_of_def vis_records_zero)
  have four: "rs = 128" if "sint (npol visin) = 4"
    using layout that by (simp add: record_size_P4)
  have ze: "entries_P4 ?blank = replicate ?n zero_entry_P4" if "sint (npol visin) = 4"
    using zr four [OF that] by (simp add: entries_P4_def read_P4_zero)
  have first: "\<exists>out. arl_copy_visibility visin visout False = Some out
            \<and> nvis out = nvis visin \<and> npol out = npol visin
            \<and> phasecentre out = phasecentre visin
            \<and> data out = data visin
            \<and> records_of rs out = records_of rs visin
            \<and> entries_P4 out = entries_P4 visin"
    using c cr src sized by (simp add: entries_P4_def)
  have second: "\<exists>out blank. arl_copy_visibility visin visout True = Some out
            \<and> nvis out = nvis visin \<and> npol out = npol visin
            \<and> phasecentre out = phasecentre visin
            \<and> data out = Some blank \<and> length blank = length src
            \<and> records_of rs out = replicate (unat (nvis visin)) (replicate rs 0)
            \<and> (sint (npol visin) = 4 \<longrightarrow>
                 entries_P4 out = replicate (unat (nvis visin)) zero_entry_P4)"
    using z zr ze sized whole by simp
  from first second show ?thesis by (rule conjI)
qed

theorem arl_copy_visibility_copies_witness:
  "arl_copy_visibility
     \<lparr>nvis = 1, npol = 4, data = Some (replicate 128 7), phasecentre = Some ''centre''\<rparr>
     \<lparr>nvis = 1, npol = 4, data = Some (replicate 128 0), phasecentre = None\<rparr> False
   = Some \<lparr>nvis = 1, npol = 4, data = Some (replicate 128 7), phasecentre = Some ''centre''\<rparr>
   \<and> (\<exists>out. arl_copy_visibility
        \<lparr>nvis = 1, npol = 4, data = Some (replicate 128 7), phasecentre = Some ''centre''\<rparr>
        \<lparr>nvis = 1, npol = 4, data = Some (replicate 128 0), phasecentre = None\<rparr> True
        = Some out
      \<and> nvis out = 1 \<and> npol out = 4 \<and> phasecentre out = Some ''centre''
      \<and> entries_P4 out = [zero_entry_P4])"
proof -
  let ?src = "\<lparr>nvis = 1, npol = 4, data = Some (replicate 128 7),
               phasecentre = Some ''centre''\<rparr>"
  let ?dst = "\<lparr>nvis = 1, npol = 4, data = Some (replicate 128 0), phasecentre = None\<rparr>"
  have l: "record_size 24 48 (sint (npol ?src)) = Some 128"
    by (simp add: record_size_P4)
  have c: "arl_copy_visibility ?src ?dst False = Some ?src"
    by (simp add: arl_copy_visibility_def)
  from arl_copy_visibility_copies
    [of ?src "replicate 128 7" ?dst "replicate 128 0", OF _ _ _ _ _ l]
  show ?thesis
    using c by auto
qed

text \<open>
  C8. For a configuration of three antennas the helper fills in \<open>nant = 3\<close> and
  \<open>nbases = 3\<close>, the number of pairs of three antennas. In general, for every antenna
  count up to 65536 (beyond it the number of pairs exceeds an \<open>int\<close>), the baseline
  count is derived from the antenna count alone: it is the number of pairwise combinations
  of \<open>nant\<close> antennas, \<open>nant\<close> choose 2.
\<close>

theorem helper_get_nbases_pairs:
  assumes n: "antennas_of name = n" and range: "0 \<le> n" "n \<le> 65536"
  shows "sint (nant (helper_get_nbases antennas_of name)) = n
       \<and> sint (nbases (helper_get_nbases antennas_of name))
           = pairwise_combinations (sint (nant (helper_get_nbases antennas_of name)))
       \<and> sint (nbases (helper_get_nbases antennas_of name)) = int (nat n choose 2)
       \<and> (n = 3 \<longrightarrow> sint (nbases (helper_get_nbases antennas_of name)) = 3)"
proof -
  have a: "sint (word_of_int n :: 32 word) = n"
    using range by (intro sint_of_int32) auto
  have "n * (n - 1) \<le> 65536 * 65535"
  proof (cases "n = 0")
    case True
    then show ?thesis by simp
  next
    case False
    with range have "n \<le> 65536" "n - 1 \<le> 65535" "0 \<le> n - 1" by simp_all
    then show ?thesis by (intro mult_mono) simp_all
  qed
  then have hi: "pairwise_combinations n < 2 ^ 31"
    by (simp add: pairwise_combinations_def)
  have "0 \<le> n * (n - 1)"
    using range by (cases "n = 0") (auto intro: mult_nonneg_nonneg)
  then have lo: "0 \<le> pairwise_combinations n"
    by (simp add: pairwise_combinations_def)
  have b: "sint (word_of_int (pairwise_combinations n) :: 32 word) = pairwise_combinations n"
    using lo hi by (intro sint_of_int32) auto
  have ch: "pairwise_combinations n = int (nat n choose 2)"
  proof -
    have "int (nat n choose 2) = int (nat n * (nat n - 1) div 2)"
      by (simp add: choose_two)
    also have "\<dots> = n * (n - 1) div 2"
      using range by (cases "n = 0") (simp_all add: zdiv_int nat_diff_distrib)
    finally show ?thesis by (simp add: pairwise_combinations_def)
  qed
  have three: "pairwise_combinations 3 = 3"
    by (simp add: pairwise_combinations_def)
  show ?thesis
    using a b ch three n by (auto simp: helper_get_nbases_def)
qed

theorem helper_get_nbases_pairs_witness:
  "sint (nant (helper_get_nbases (\<lambda>c. 3) ''LOWBD2'')) = 3
   \<and> sint (nbases (helper_get_nbases (\<lambda>c. 3) ''LOWBD2'')) = 3"
  using helper_get_nbases_pairs [of "\<lambda>c. 3" "''LOWBD2''" 3]
  by (simp add: pairwise_combinations_def)

end
